theory Spec2Isabelle
  imports Complex_Main "HOL-Library.AList"
begin

section \<open>Python values used by the preprocessing pipeline\<close>

text \<open>
  The pipeline of \<^verbatim>\<open>src/preprocessing/log_preprocessor.py\<close> and the configuration of
  \<^verbatim>\<open>src/config/preprocessing_config.py\<close> are embedded as HOL functions. Exceptions are
  values of the type \<open>error\<close>; a function that may raise returns \<open>error + 'a\<close>.
  Strings are lists of ASCII characters, and the character classes of Python
  (\<^verbatim>\<open>str.isspace\<close>, \<^verbatim>\<open>\d\<close>, \<^verbatim>\<open>\w\<close>, \<^verbatim>\<open>\s\<close>) are given on ASCII.
\<close>

datatype error = ValueError | IndexError | KeyError | TypeError | OverflowError

definition py_isspace :: "char \<Rightarrow> bool" where
  "py_isspace c = (of_char c \<in> set [9, 10, 11, 12, 13, 28, 29, 30, 31, 32 :: nat])"

definition is_digit :: "char \<Rightarrow> bool" where
  "is_digit c = (48 \<le> (of_char c :: nat) \<and> (of_char c :: nat) \<le> 57)"

definition is_alpha :: "char \<Rightarrow> bool" where
  "is_alpha c = ((65 \<le> (of_char c :: nat) \<and> (of_char c :: nat) \<le> 90) \<or>
                 (97 \<le> (of_char c :: nat) \<and> (of_char c :: nat) \<le> 122))"

definition digit_val :: "char \<Rightarrow> nat" where
  "digit_val c = of_char c - 48"

text \<open>\<^verbatim>\<open>str.strip()\<close>: whitespace removed at both ends.\<close>

definition strip :: "string \<Rightarrow> string" where
  "strip s = rev (dropWhile py_isspace (rev (dropWhile py_isspace s)))"

text \<open>
  \<^verbatim>\<open>s.split(sep, maxsplit)\<close> for a one-character separator: at most \<open>maxsplit\<close> cuts,
  empty fields kept. \<^verbatim>\<open>s.split(sep)\<close> cuts at every separator.
\<close>

fun split_sep :: "char \<Rightarrow> nat \<Rightarrow> string \<Rightarrow> string list" where
  "split_sep sep 0 s = [s]"
| "split_sep sep (Suc n) s =
     (if sep \<in> set s
      then takeWhile (\<lambda>c. c \<noteq> sep) s # split_sep sep n (tl (dropWhile (\<lambda>c. c \<noteq> sep) s))
      else [s])"

definition split_all :: "char \<Rightarrow> string \<Rightarrow> string list" where
  "split_all sep s = split_sep sep (length s) s"

text \<open>
  \<^verbatim>\<open>int(s)\<close>: surrounding whitespace is ignored, one sign is allowed, and the digits
  may be grouped by single underscores; anything else raises \<open>ValueError\<close>.
\<close>

fun int_body :: "nat \<Rightarrow> string \<Rightarrow> nat option" where
  "int_body acc [] = Some acc"
| "int_body acc [c] = (if is_digit c then Some (acc * 10 + digit_val c) else None)"
| "int_body acc (c # d # ds) =
     (if is_digit c then int_body (acc * 10 + digit_val c) (d # ds)
      else if c = CHR ''_'' \<and> is_digit d then int_body (acc * 10 + digit_val d) ds
      else None)"

definition int_unsigned :: "string \<Rightarrow> nat option" where
  "int_unsigned s =
     (case s of [] \<Rightarrow> None
      | c # cs \<Rightarrow> if is_digit c then int_body (digit_val c) cs else None)"

definition py_int :: "string \<Rightarrow> error + int" where
  "py_int s =
     (case strip s of
        [] \<Rightarrow> Inl ValueError
      | c # cs \<Rightarrow>
          if c = CHR ''-'' then
            (case int_unsigned cs of None \<Rightarrow> Inl ValueError | Some n \<Rightarrow> Inr (- int n))
          else if c = CHR ''+'' then
            (case int_unsigned cs of None \<Rightarrow> Inl ValueError | Some n \<Rightarrow> Inr (int n))
          else
            (case int_unsigned (c # cs) of None \<Rightarrow> Inl ValueError | Some n \<Rightarrow> Inr (int n)))"

text \<open>
  \<^verbatim>\<open>datetime(year, month, day, hour, minute, second)\<close>: the arguments must fit a C int
  (\<open>OverflowError\<close> otherwise) and lie in the calendar's ranges (\<open>ValueError\<close> otherwise).
\<close>

record datetime =
  year :: int
  month :: int
  day :: int
  hour :: int
  minute :: int
  second :: int

definition is_leap :: "int \<Rightarrow> bool" where
  "is_leap y = (y mod 4 = 0 \<and> (y mod 100 \<noteq> 0 \<or> y mod 400 = 0))"

definition days_in_month :: "int \<Rightarrow> int \<Rightarrow> int" where
  "days_in_month y m =
     (if m = 2 then (if is_leap y then 29 else 28)
      else if m = 4 \<or> m = 6 \<or> m = 9 \<or> m = 11 then 30 else 31)"

definition fits_c_int :: "int \<Rightarrow> bool" where
  "fits_c_int v = (- 2147483648 \<le> v \<and> v \<le> 2147483647)"

definition datetime_new :: "int \<Rightarrow> int \<Rightarrow> int \<Rightarrow> int \<Rightarrow> int \<Rightarrow> int \<Rightarrow> error + datetime" where
  "datetime_new y mo d h mi s =
     (if \<not> list_all fits_c_int [y, mo, d, h, mi, s] then Inl OverflowError
      else if y < 1 \<or> 9999 < y then Inl ValueError
      else if mo < 1 \<or> 12 < mo then Inl ValueError
      else if d < 1 \<or> days_in_month y mo < d then Inl ValueError
      else if h < 0 \<or> 23 < h then Inl ValueError
      else if mi < 0 \<or> 59 < mi then Inl ValueError
      else if s < 0 \<or> 59 < s then Inl ValueError
      else Inr \<lparr>year = y, month = mo, day = d, hour = h, minute = mi, second = s\<rparr>)"

text \<open>Sequencing of calls that may raise: the first exception ends the block.\<close>

definition bind_err :: "error + 'a \<Rightarrow> ('a \<Rightarrow> error + 'b) \<Rightarrow> error + 'b" where
  "bind_err r f = (case r of Inl e \<Rightarrow> Inl e | Inr v \<Rightarrow> f v)"

section \<open>The format parser: \<^verbatim>\<open>LogPreprocessor.parse_logs\<close> on a list of lines\<close>

text \<open>
  The body of the inner \<^verbatim>\<open>try\<close> of the \<^verbatim>\<open>hdfs\<close> branch, on the parts of
  \<^verbatim>\<open>log.split(' ', 3)\<close> (there are at least four when it runs).
\<close>

definition hdfs_fields :: "string list \<Rightarrow> error + (datetime \<times> string)" where
  "hdfs_fields parts =
     (let date_str = parts ! 0; time_str = parts ! 1 in
      bind_err (py_int (''20'' @ take 2 date_str)) (\<lambda>year.
      bind_err (py_int (take 2 (drop 2 date_str))) (\<lambda>month.
      bind_err (py_int (drop 4 date_str)) (\<lambda>day.
      bind_err (py_int (take 2 time_str)) (\<lambda>hour.
      bind_err (py_int (take 2 (drop 2 time_str))) (\<lambda>minute.
      bind_err (py_int (drop 4 time_str)) (\<lambda>second.
      bind_err (datetime_new year month day hour minute second) (\<lambda>timestamp.
      Inr (timestamp, parts ! 3)))))))))"

text \<open>\<^verbatim>\<open>xs[i]\<close> for \<open>i \<ge> 0\<close>: out of range raises \<open>IndexError\<close>.\<close>

definition py_index :: "'a list \<Rightarrow> nat \<Rightarrow> error + 'a" where
  "py_index xs i = (if i < length xs then Inr (xs ! i) else Inl IndexError)"

text \<open>
  \<^verbatim>\<open>s.find(c, start)\<close> for a one-character \<open>c\<close> and \<open>start \<ge> 0\<close>: the first index at
  or after \<open>start\<close>, or \<open>-1\<close>.
\<close>

definition py_find :: "char \<Rightarrow> string \<Rightarrow> nat \<Rightarrow> int" where
  "py_find c s start =
     (let r = drop start s in
      if c \<in> set r then int (start + length (takeWhile (\<lambda>x. x \<noteq> c) r)) else - 1)"

text \<open>
  \<^verbatim>\<open>datetime.strptime\<close> is library code; the parser is embedded for any behaviour of
  it, as a function from the text and the format to a timestamp or an exception.
\<close>

type_synonym strptime = "string \<Rightarrow> string \<Rightarrow> error + datetime"

text \<open>
  The fields of the dataclass \<^verbatim>\<open>PreprocessingConfig\<close> that the parser, the windowing
  and the normalizer read. The fields of the feature extractor (\<^verbatim>\<open>basic_features\<close>,
  \<^verbatim>\<open>pattern_features\<close>, \<^verbatim>\<open>custom_patterns\<close>) are left out.
\<close>

record PreprocessingConfig =
  timestamp_format :: string
  apache_timestamp_format :: string
  window_size :: string
  normalization_method :: string
  min_logs_per_window :: int
  max_logs_per_window :: "int option"
  window_stride :: "string option"

record parsed_record =
  timestamp :: datetime
  message :: string

text \<open>
  What one pass through the body of the outer \<^verbatim>\<open>try\<close> leaves: \<open>Continue\<close> when an
  inner \<^verbatim>\<open>except\<close> ran \<^verbatim>\<open>continue\<close>, otherwise the values of \<^verbatim>\<open>timestamp\<close> and
  \<^verbatim>\<open>message\<close> (\<open>None\<close> when both are still \<^verbatim>\<open>None\<close>).
\<close>

datatype step = Continue | Fields "(datetime \<times> string) option"

text \<open>The pattern \<^verbatim>\<open>\[([\w\s:]+)\]\<close> of the Apache branch, and \<^verbatim>\<open>re.search\<close> with it.\<close>

definition apache_class :: "char \<Rightarrow> bool" where
  "apache_class c = (is_alpha c \<or> is_digit c \<or> c = CHR ''_'' \<or> py_isspace c \<or> c = CHR '':'')"

definition match_bracket :: "string \<Rightarrow> string option" where
  "match_bracket s =
     (case s of
        [] \<Rightarrow> None
      | c # cs \<Rightarrow>
          if c = CHR ''[''
          then (let g = takeWhile apache_class cs; r = dropWhile apache_class cs in
                if g \<noteq> [] \<and> r \<noteq> [] \<and> hd r = CHR '']'' then Some g else None)
          else None)"

fun search_bracket :: "string \<Rightarrow> string option" where
  "search_bracket [] = None"
| "search_bracket (c # cs) =
     (case match_bracket (c # cs) of Some g \<Rightarrow> Some g | None \<Rightarrow> search_bracket cs)"

definition apache_body :: "strptime \<Rightarrow> string \<Rightarrow> error + step" where
  "apache_body sp line =
     (case search_bracket line of
        None \<Rightarrow> Inr (Fields None)
      | Some timestamp_str \<Rightarrow>
          (case sp timestamp_str ''%a %b %d %H:%M:%S %Y'' of
             Inl ValueError \<Rightarrow> Inr Continue
           | Inl e \<Rightarrow> Inl e
           | Inr ts \<Rightarrow>
               (let i1 = py_find (CHR '']'') line 0;
                    i2 = py_find (CHR '']'') line (nat (i1 + 1))
                in Inr (Fields (Some (ts, strip (drop (nat (i2 + 1)) line)))))))"

definition hdfs_body :: "string \<Rightarrow> error + step" where
  "hdfs_body line =
     (let parts = split_sep (CHR '' '') 3 line in
      if 4 \<le> length parts
      then (case hdfs_fields parts of
              Inl ValueError \<Rightarrow> Inr Continue
            | Inl IndexError \<Rightarrow> Inr Continue
            | Inl e \<Rightarrow> Inl e
            | Inr tm \<Rightarrow> Inr (Fields (Some tm)))
      else Inr (Fields None))"

definition healthapp_fields :: "strptime \<Rightarrow> string list \<Rightarrow> error + (datetime \<times> string)" where
  "healthapp_fields sp parts =
     (let timestamp_str = parts ! 0; segs = split_all (CHR '':'') timestamp_str in
      bind_err (py_index segs 0) (\<lambda>a.
      bind_err (py_index segs 1) (\<lambda>b.
      bind_err (py_index segs 2) (\<lambda>c.
      bind_err (sp (a @ '':'' @ b @ '':'' @ c) ''%Y%m%d-%H:%M:%S'') (\<lambda>ts.
      Inr (ts, parts ! 1 @ ''|'' @ parts ! 2 @ ''|'' @ parts ! 3))))))"

definition healthapp_body :: "strptime \<Rightarrow> string \<Rightarrow> error + step" where
  "healthapp_body sp line =
     (let parts = split_all (CHR ''|'') line in
      if 4 \<le> length parts
      then (case healthapp_fields sp parts of
              Inl ValueError \<Rightarrow> Inr Continue
            | Inl IndexError \<Rightarrow> Inr Continue
            | Inl e \<Rightarrow> Inl e
            | Inr tm \<Rightarrow> Inr (Fields (Some tm)))
      else Inr (Fields None))"

text \<open>
  The pattern \<^verbatim>\<open>(\d{4}-\d{2}-\d{2}\s+\d{2}:\d{2}:\d{2})\<close> of the default branch. Each
  piece consumes a prefix and returns the rest; \<open>match_ts\<close> returns what follows the
  match, \<open>search_ts\<close> the matched text and what follows it (\<^verbatim>\<open>log[match.end():]\<close>).
\<close>

definition eat_digits :: "nat \<Rightarrow> string \<Rightarrow> string option" where
  "eat_digits n s = (if n \<le> length s \<and> list_all is_digit (take n s) then Some (drop n s) else None)"

definition eat_char :: "char \<Rightarrow> string \<Rightarrow> string option" where
  "eat_char c s = (case s of [] \<Rightarrow> None | x # xs \<Rightarrow> if x = c then Some xs else None)"

definition eat_spaces :: "string \<Rightarrow> string option" where
  "eat_spaces s =
     (case s of [] \<Rightarrow> None | x # xs \<Rightarrow> if py_isspace x then Some (dropWhile py_isspace xs) else None)"

definition match_ts :: "string \<Rightarrow> string option" where
  "match_ts s =
     Option.bind (eat_digits 4 s) (\<lambda>s.
     Option.bind (eat_char (CHR ''-'') s) (\<lambda>s.
     Option.bind (eat_digits 2 s) (\<lambda>s.
     Option.bind (eat_char (CHR ''-'') s) (\<lambda>s.
     Option.bind (eat_digits 2 s) (\<lambda>s.
     Option.bind (eat_spaces s) (\<lambda>s.
     Option.bind (eat_digits 2 s) (\<lambda>s.
     Option.bind (eat_char (CHR '':'') s) (\<lambda>s.
     Option.bind (eat_digits 2 s) (\<lambda>s.
     Option.bind (eat_char (CHR '':'') s) (\<lambda>s.
     eat_digits 2 s))))))))))"

fun search_ts :: "string \<Rightarrow> (string \<times> string) option" where
  "search_ts [] = None"
| "search_ts (c # cs) =
     (case match_ts (c # cs) of
        Some rest \<Rightarrow> Some (take (length (c # cs) - length rest) (c # cs), rest)
      | None \<Rightarrow> search_ts cs)"

definition default_body :: "strptime \<Rightarrow> PreprocessingConfig \<Rightarrow> string \<Rightarrow> error + step" where
  "default_body sp cfg line =
     (case search_ts line of
        None \<Rightarrow> Inr (Fields None)
      | Some (g, rest) \<Rightarrow>
          bind_err (sp g (timestamp_format cfg)) (\<lambda>ts. Inr (Fields (Some (ts, strip rest)))))"

definition line_body :: "strptime \<Rightarrow> PreprocessingConfig \<Rightarrow> string \<Rightarrow> string \<Rightarrow> error + step" where
  "line_body sp cfg log_type line =
     (if log_type = ''apache'' then apache_body sp line
      else if log_type = ''hdfs'' then hdfs_body line
      else if log_type = ''healthapp'' then healthapp_body sp line
      else default_body sp cfg line)"

text \<open>
  One iteration of the loop: the outer \<^verbatim>\<open>except Exception\<close> turns every exception
  into \<^verbatim>\<open>continue\<close>; a record is appended when \<^verbatim>\<open>timestamp and message\<close> is true,
  that is when both are set and the message is not empty.
\<close>

definition parse_line :: "strptime \<Rightarrow> PreprocessingConfig \<Rightarrow> string \<Rightarrow> string \<Rightarrow> parsed_record option" where
  "parse_line sp cfg log_type line =
     (case line_body sp cfg log_type line of
        Inl e \<Rightarrow> None
      | Inr Continue \<Rightarrow> None
      | Inr (Fields None) \<Rightarrow> None
      | Inr (Fields (Some (ts, msg))) \<Rightarrow>
          if msg \<noteq> [] then Some \<lparr>timestamp = ts, message = msg\<rparr> else None)"

fun parse_loop :: "(string \<Rightarrow> parsed_record option) \<Rightarrow> string list \<Rightarrow> parsed_record list \<Rightarrow> parsed_record list" where
  "parse_loop f [] parsed_logs = parsed_logs"
| "parse_loop f (line # logs) parsed_logs =
     (case f line of
        None \<Rightarrow> parse_loop f logs parsed_logs
      | Some r \<Rightarrow> parse_loop f logs (parsed_logs @ [r]))"

text \<open>The list branch of \<^verbatim>\<open>parse_logs\<close>: the rows of the returned table, in order.\<close>

definition parse_logs_list :: "strptime \<Rightarrow> PreprocessingConfig \<Rightarrow> string list \<Rightarrow> string \<Rightarrow> error + parsed_record list" where
  "parse_logs_list sp cfg logs log_type = Inr (parse_loop (parse_line sp cfg log_type) logs [])"

section \<open>\<^verbatim>\<open>parse_logs\<close> on a table, and the dispatch on the argument\<close>

text \<open>
  A DataFrame is an object that the caller and the callee share, so the tables live in
  a store and are passed by address. A table maps column labels to columns; a column is
  either of a datetime dtype or of another dtype (its cells as text).
  \<^verbatim>\<open>pd.to_datetime(column, format=...)\<close> is library code: any function from a column and
  a format to the converted instants or an exception.
\<close>

datatype column = Datetime64 "datetime list" | Object "string list"

type_synonym frame = "(string \<times> column) list"
type_synonym addr = nat
type_synonym store = "frame list"
type_synonym to_datetime = "column \<Rightarrow> string \<Rightarrow> error + datetime list"

definition is_datetime64_any_dtype :: "column \<Rightarrow> bool" where
  "is_datetime64_any_dtype c = (case c of Datetime64 _ \<Rightarrow> True | Object _ \<Rightarrow> False)"

definition columns :: "frame \<Rightarrow> string set" where
  "columns df = fst ` set df"

text \<open>\<^verbatim>\<open>logs.copy()\<close>: a new object with the same contents; its address is returned.\<close>

definition frame_copy :: "addr \<Rightarrow> store \<Rightarrow> addr \<times> store" where
  "frame_copy a st = (length st, st @ [st ! a])"

definition parse_logs_frame :: "to_datetime \<Rightarrow> PreprocessingConfig \<Rightarrow> addr \<Rightarrow> string \<Rightarrow> store \<Rightarrow> (error + addr) \<times> store" where
  "parse_logs_frame td cfg a log_type st =
     (let logs = st ! a in
      if ''timestamp'' \<notin> columns logs \<or> ''message'' \<notin> columns logs then (Inl ValueError, st)
      else
        (case map_of logs ''timestamp'' of
           None \<Rightarrow> (Inl KeyError, st)
         | Some col \<Rightarrow>
             if \<not> is_datetime64_any_dtype col
             then (case td col (if log_type = ''apache'' then apache_timestamp_format cfg
                                else timestamp_format cfg) of
                     Inl e \<Rightarrow> (Inl e, st)
                   | Inr conv \<Rightarrow>
                       (let st1 = st[a := AList.update ''timestamp'' (Datetime64 conv) logs];
                            (b, st2) = frame_copy a st1
                        in (Inr b, st2)))
             else (let (b, st2) = frame_copy a st in (Inr b, st2))))"

text \<open>
  The argument of \<^verbatim>\<open>parse_logs\<close> is a list of lines, a DataFrame, or anything else; the
  result is a new table, given by its rows when it was built from lines and by its
  address when it is the copy of the argument.
\<close>

datatype logs_arg = Lines "string list" | Frame addr | Other

datatype parsed_table = Rows "parsed_record list" | FrameAt addr

definition parse_logs :: "strptime \<Rightarrow> to_datetime \<Rightarrow> PreprocessingConfig \<Rightarrow> logs_arg \<Rightarrow> string \<Rightarrow> store \<Rightarrow> (error + parsed_table) \<times> store" where
  "parse_logs sp td cfg logs log_type st =
     (case logs of
        Lines ls \<Rightarrow> (map_sum id Rows (parse_logs_list sp cfg ls log_type), st)
      | Frame a \<Rightarrow> (case parse_logs_frame td cfg a log_type st of (r, st1) \<Rightarrow> (map_sum id FrameAt r, st1))
      | Other \<Rightarrow> (Inl ValueError, st))"

text \<open>The defaults of the dataclass \<^verbatim>\<open>PreprocessingConfig\<close>.\<close>

definition default_config :: PreprocessingConfig where
  "default_config =
     \<lparr>timestamp_format = ''%Y-%m-%d %H:%M:%S'',
      apache_timestamp_format = ''%a %b %d %H:%M:%S %Y'',
      window_size = ''5min'',
      normalization_method = ''minmax'',
      min_logs_per_window = 1,
      max_logs_per_window = None,
      window_stride = None\<rparr>"

text \<open>
  Stand-ins for the two library functions that recognise nothing, for evaluating the
  parser on inputs whose branch does not call them.
\<close>

definition strptime_none :: strptime where
  "strptime_none s fmt = Inl ValueError"

definition to_datetime_none :: to_datetime where
  "to_datetime_none c fmt = Inl ValueError"

text \<open>
  A line fails when the body of the loop ends in an exception, in an inner
  \<^verbatim>\<open>continue\<close> (a field that does not parse), or without a match.
\<close>

definition line_fails :: "strptime \<Rightarrow> PreprocessingConfig \<Rightarrow> string \<Rightarrow> string \<Rightarrow> bool" where
  "line_fails sp cfg log_type line =
     (case line_body sp cfg log_type line of
        Inl e \<Rightarrow> True
      | Inr Continue \<Rightarrow> True
      | Inr (Fields None) \<Rightarrow> True
      | Inr (Fields (Some tm)) \<Rightarrow> False)"

text \<open>A stand-in for \<^verbatim>\<open>pd.to_datetime\<close> that converts every cell to one fixed instant.\<close>

definition to_datetime_midnight :: to_datetime where
  "to_datetime_midnight c fmt =
     (case c of
        Datetime64 ts \<Rightarrow> Inr ts
      | Object cells \<Rightarrow> Inr (map (\<lambda>_. \<lparr>year = 2024, month = 3, day = 15, hour = 0, minute = 0, second = 0\<rparr>) cells))"

section \<open>The configuration: durations and validation\<close>

text \<open>
  \<^verbatim>\<open>str.lower()\<close> on ASCII.
\<close>

definition to_lower :: "char \<Rightarrow> char" where
  "to_lower c =
     (case map_of (zip ''ABCDEFGHIJKLMNOPQRSTUVWXYZ'' ''abcdefghijklmnopqrstuvwxyz'') c of
        Some l \<Rightarrow> l
      | None \<Rightarrow> c)"

definition str_lower :: "string \<Rightarrow> string" where
  "str_lower s = map to_lower s"

text \<open>
  The keyword that \<^verbatim>\<open>unit_map\<close> selects for \<^verbatim>\<open>pd.Timedelta\<close>, and the duration that
  \<^verbatim>\<open>pd.Timedelta(keyword=value)\<close> stands for, in seconds. The duration is exact: the
  range of pandas' 64-bit nanosecond counter is not part of the embedding.
\<close>

datatype td_keyword = Seconds | Minutes | Hours | Days

definition unit_map :: "(string \<times> td_keyword) list" where
  "unit_map =
     [(''s'', Seconds), (''sec'', Seconds), (''m'', Minutes), (''min'', Minutes),
      (''h'', Hours), (''hr'', Hours), (''d'', Days), (''day'', Days)]"

definition pd_Timedelta :: "td_keyword \<Rightarrow> int \<Rightarrow> int" where
  "pd_Timedelta kw v =
     (case kw of Seconds \<Rightarrow> v | Minutes \<Rightarrow> 60 * v | Hours \<Rightarrow> 3600 * v | Days \<Rightarrow> 86400 * v)"

text \<open>
  \<^verbatim>\<open>_parse_time_str\<close>. \<^verbatim>\<open>re.match(r'(\d+)([a-zA-Z]+)', time_str)\<close> matches at the start of
  the string only: its groups are the longest run of digits there and the longest run
  of letters after it, and both must be non-empty.
\<close>

definition parse_time_str :: "string \<Rightarrow> error + int" where
  "parse_time_str time_str =
     (let value_str = takeWhile is_digit time_str;
          unit = takeWhile is_alpha (dropWhile is_digit time_str)
      in if value_str = [] \<or> unit = [] then Inl ValueError
         else bind_err (py_int value_str) (\<lambda>v.
              case map_of unit_map (str_lower unit) of
                None \<Rightarrow> Inl ValueError
              | Some kw \<Rightarrow> Inr (pd_Timedelta kw v)))"



definition validate_window_params :: "PreprocessingConfig \<Rightarrow> error + unit" where
  "validate_window_params cfg =
     (if min_logs_per_window cfg < 1 then Inl ValueError
      else if (case max_logs_per_window cfg of None \<Rightarrow> False | Some m \<Rightarrow> m < min_logs_per_window cfg)
      then Inl ValueError
      else (case window_stride cfg of
              None \<Rightarrow> Inr ()
            | Some stride \<Rightarrow>
                (case parse_time_str stride of
                   Inl ValueError \<Rightarrow> Inl ValueError
                 | Inl e \<Rightarrow> Inl e
                 | Inr d \<Rightarrow> Inr ())))"


definition get_window_timedelta :: "PreprocessingConfig \<Rightarrow> error + int" where
  "get_window_timedelta cfg = parse_time_str (window_size cfg)"

definition get_stride_timedelta :: "PreprocessingConfig \<Rightarrow> error + int" where
  "get_stride_timedelta cfg =
     (case window_stride cfg of
        None \<Rightarrow> get_window_timedelta cfg
      | Some stride \<Rightarrow> parse_time_str stride)"

text \<open>
  The grammar in the words of the specification: a positive integer followed by one of
  the eight units, in any case, and nothing else.
\<close>

definition dec_value :: "string \<Rightarrow> nat" where
  "dec_value ds = foldl (\<lambda>a c. a * 10 + digit_val c) 0 ds"

definition spec_duration_grammar :: "string \<Rightarrow> bool" where
  "spec_duration_grammar s =
     (let ds = takeWhile is_digit s; u = dropWhile is_digit s
      in ds \<noteq> [] \<and> 0 < dec_value ds \<and> str_lower u \<in> fst ` set unit_map)"

section \<open>The windowing engine: \<^verbatim>\<open>create_time_windows\<close>\<close>

text \<open>
  A row of the feature table is its timestamp, in seconds since the epoch, and its
  numeric feature values, one per column; every row has a value in every column.
  \<^verbatim>\<open>Series.mean\<close>, \<^verbatim>\<open>std\<close>, \<^verbatim>\<open>min\<close> and \<^verbatim>\<open>max\<close> of pandas give NaN (here \<open>None\<close>)
  where the statistic is undefined; \<^verbatim>\<open>std\<close> is pandas' default, the sample standard
  deviation with denominator \<open>n - 1\<close>.
\<close>

type_synonym row = "int \<times> real list"

definition series_mean :: "real list \<Rightarrow> real option" where
  "series_mean xs = (if xs = [] then None else Some (sum_list xs / real (length xs)))"

definition series_std :: "real list \<Rightarrow> real option" where
  "series_std xs =
     (if length xs < 2 then None
      else (let m = sum_list xs / real (length xs)
            in Some (sqrt (sum_list (map (\<lambda>x. (x - m)\<^sup>2) xs) / real (length xs - 1)))))"

definition series_min :: "real list \<Rightarrow> real option" where
  "series_min xs = (if xs = [] then None else Some (Min (set xs)))"

definition series_max :: "real list \<Rightarrow> real option" where
  "series_max xs = (if xs = [] then None else Some (Max (set xs)))"

record agg =
  mean_of :: "real option"
  std_of :: "real option"
  min_of :: "real option"
  max_of :: "real option"

definition ncols :: "row list \<Rightarrow> nat" where
  "ncols df = (case df of [] \<Rightarrow> 0 | r # _ \<Rightarrow> length (snd r))"

definition column_values :: "nat \<Rightarrow> row list \<Rightarrow> real list" where
  "column_values j g = map (\<lambda>r. snd r ! j) g"

definition aggregate :: "nat \<Rightarrow> row list \<Rightarrow> agg list" where
  "aggregate n g =
     map (\<lambda>j. \<lparr>mean_of = series_mean (column_values j g), std_of = series_std (column_values j g),
               min_of = series_min (column_values j g), max_of = series_max (column_values j g)\<rparr>)
         [0 ..< n]"

text \<open>
  \<^verbatim>\<open>df.resample(freq)\<close> and \<^verbatim>\<open>df.groupby(pd.Grouper(freq=freq))\<close> for a frequency of
  \<open>w\<close> seconds: the rows are put in time order (a stable sort); the bins are the
  intervals \<open>[label, label + w)\<close> that are \<open>w\<close> apart counted from midnight of the first
  row's day (pandas' default origin, \<^verbatim>\<open>start_day\<close>); every bin from the first row's to
  the last row's is produced, the empty ones too.
\<close>

definition start_day :: "int \<Rightarrow> int" where
  "start_day t = (t div 86400) * 86400"

definition bin_label :: "int \<Rightarrow> int \<Rightarrow> int \<Rightarrow> int" where
  "bin_label w origin t = origin + ((t - origin) div w) * w"

definition in_bin :: "int \<Rightarrow> int \<Rightarrow> row \<Rightarrow> bool" where
  "in_bin w label r = (label \<le> fst r \<and> fst r < label + w)"

definition resample :: "int \<Rightarrow> row list \<Rightarrow> (int \<times> row list) list" where
  "resample w df =
     (if df = [] then []
      else (let ax = sort_key fst df;
                origin = start_day (fst (hd ax));
                first = bin_label w origin (fst (hd ax));
                last = bin_label w origin (fst (last ax));
                labels = map (\<lambda>k. first + int k * w) [0 ..< Suc (nat ((last - first) div w))]
            in map (\<lambda>label. (label, filter (in_bin w label) ax)) labels))"

text \<open>\<^verbatim>\<open>window.head(n)\<close>: the first \<open>n\<close> rows, or all but the last \<open>-n\<close> for a negative \<open>n\<close>.\<close>

definition df_head :: "int \<Rightarrow> 'a list \<Rightarrow> 'a list" where
  "df_head n xs = (if 0 \<le> n then take (nat n) xs else take (length xs - nat (- n)) xs)"

text \<open>The loop that keeps the windows with enough rows, cut to the maximum if one is set.\<close>

definition enough_logs :: "PreprocessingConfig \<Rightarrow> row list \<Rightarrow> bool" where
  "enough_logs cfg window = (min_logs_per_window cfg \<le> int (length window))"

definition cut_to_max :: "PreprocessingConfig \<Rightarrow> row list \<Rightarrow> row list" where
  "cut_to_max cfg window =
     (case max_logs_per_window cfg of
        None \<Rightarrow> window
      | Some m \<Rightarrow> if m \<noteq> 0 then df_head m window else window)"

fun window_loop :: "PreprocessingConfig \<Rightarrow> (int \<times> row list) list \<Rightarrow> row list list \<Rightarrow> row list list" where
  "window_loop cfg [] valid_windows = valid_windows"
| "window_loop cfg ((label, window) # windows) valid_windows =
     (if enough_logs cfg window
      then window_loop cfg windows (valid_windows @ [cut_to_max cfg window])
      else window_loop cfg windows valid_windows)"

text \<open>
  \<^verbatim>\<open>create_time_windows\<close>. The rows carry their timestamp, which is the index after
  \<^verbatim>\<open>set_index('timestamp')\<close>, and every feature column is numeric, so all of them are
  aggregated. How pandas reads the string \<^verbatim>\<open>window_size\<close> as a frequency is library
  code: \<open>to_offset\<close> is any function from the string to a width in seconds or an
  exception, and a width that is not positive is rejected. The configured
  \<^verbatim>\<open>window_stride\<close> is not read.
\<close>

type_synonym to_offset = "string \<Rightarrow> error + int"

definition create_time_windows :: "to_offset \<Rightarrow> PreprocessingConfig \<Rightarrow> row list \<Rightarrow> error + (int \<times> agg list) list" where
  "create_time_windows freq cfg df =
     bind_err (freq (window_size cfg)) (\<lambda>w.
       if w \<le> 0 then Inl ValueError
       else (let windows = resample w df;
                 valid_windows = window_loop cfg windows []
             in if valid_windows = [] then Inl ValueError
                else (let df_windows = concat valid_windows
                      in Inr (map (\<lambda>(label, g). (label, aggregate (ncols df_windows) g))
                                  (resample w df_windows)))))"

text \<open>
  The standard deviation in the words of the specification: the population statistic,
  with denominator \<open>n\<close>, which is 0 for a single value.
\<close>

definition population_std :: "real list \<Rightarrow> real option" where
  "population_std xs =
     (if xs = [] then None
      else (let m = sum_list xs / real (length xs)
            in Some (sqrt (sum_list (map (\<lambda>x. (x - m)\<^sup>2) xs) / real (length xs)))))"

section \<open>The normalizer: \<^verbatim>\<open>normalize_features\<close> and the cached statistics\<close>

text \<open>
  A cell of a table is a number or NaN (\<open>None\<close>); a table lists its columns, each with
  its label and its cells, and the labels are distinct. \<^verbatim>\<open>Series.min\<close>, \<^verbatim>\<open>max\<close>,
  \<^verbatim>\<open>mean\<close> and \<^verbatim>\<open>std\<close> skip the NaN cells; comparison with NaN is false and
  arithmetic with NaN gives NaN.
\<close>

type_synonym cell = "real option"
type_synonym 'k table = "('k \<times> cell list) list"

definition present :: "cell list \<Rightarrow> real list" where
  "present xs = List.map_filter id xs"

definition cell_gt :: "cell \<Rightarrow> cell \<Rightarrow> bool" where
  "cell_gt a b = (case (a, b) of (Some x, Some y) \<Rightarrow> y < x | _ \<Rightarrow> False)"

definition cell_sub :: "cell \<Rightarrow> cell \<Rightarrow> cell" where
  "cell_sub a b = (case (a, b) of (Some x, Some y) \<Rightarrow> Some (x - y) | _ \<Rightarrow> None)"

definition cell_div :: "cell \<Rightarrow> cell \<Rightarrow> cell" where
  "cell_div a b = (case (a, b) of (Some x, Some y) \<Rightarrow> if y = 0 then None else Some (x / y) | _ \<Rightarrow> None)"

text \<open>
  \<^verbatim>\<open>feature_stats\<close> maps a column label to a dictionary from the names of the
  statistics to their values. A \<^verbatim>\<open>LogPreprocessor\<close> is its configuration and this cache.
\<close>

type_synonym 'k stats = "'k \<rightharpoonup> (string \<rightharpoonup> cell)"

record 'k LogPreprocessor =
  config :: PreprocessingConfig
  feature_stats :: "'k stats"

definition dict_get :: "(string \<rightharpoonup> cell) \<Rightarrow> string \<Rightarrow> error + cell" where
  "dict_get d k = (case d k of None \<Rightarrow> Inl KeyError | Some v \<Rightarrow> Inr v)"

text \<open>The body of the loop of \<^verbatim>\<open>_minmax_normalize\<close> for one column.\<close>

definition minmax_entry :: "cell list \<Rightarrow> (string \<rightharpoonup> cell)" where
  "minmax_entry xs = [''min'' \<mapsto> series_min (present xs), ''max'' \<mapsto> series_max (present xs)]"

definition minmax_scale :: "cell \<Rightarrow> cell \<Rightarrow> cell list \<Rightarrow> cell list" where
  "minmax_scale min_val max_val xs =
     (if cell_gt max_val min_val
      then map (\<lambda>v. cell_div (cell_sub v min_val) (cell_sub max_val min_val)) xs
      else map (\<lambda>v. Some 0) xs)"

definition minmax_apply :: "(string \<rightharpoonup> cell) \<Rightarrow> cell list \<Rightarrow> error + cell list" where
  "minmax_apply d xs =
     bind_err (dict_get d ''min'') (\<lambda>min_val.
     bind_err (dict_get d ''max'') (\<lambda>max_val.
     Inr (minmax_scale min_val max_val xs)))"

definition minmax_column :: "'k stats \<Rightarrow> 'k \<Rightarrow> cell list \<Rightarrow> (error + cell list) \<times> 'k stats" where
  "minmax_column fs column xs =
     (let fs1 = (if fs column = None then fs(column \<mapsto> minmax_entry xs) else fs)
      in (case fs1 column of
            None \<Rightarrow> (Inl KeyError, fs1)
          | Some d \<Rightarrow> (minmax_apply d xs, fs1)))"





text \<open>
  The loop \<^verbatim>\<open>for column in df.columns\<close> of both functions: it reads the columns of
  \<^verbatim>\<open>df\<close>, writes into the copy \<^verbatim>\<open>normalized_df\<close> and updates the cache; an exception
  ends it, and what was cached before stays cached.
\<close>

fun normalize_loop ::
  "('k stats \<Rightarrow> 'k \<Rightarrow> cell list \<Rightarrow> (error + cell list) \<times> 'k stats) \<Rightarrow>
     'k stats \<Rightarrow> 'k table \<Rightarrow> 'k table \<Rightarrow> (error + 'k table) \<times> 'k stats" where
  "normalize_loop body fs [] normalized_df = (Inr normalized_df, fs)"
| "normalize_loop body fs ((column, xs) # cols) normalized_df =
     (case body fs column xs of
        (Inl e, fs1) \<Rightarrow> (Inl e, fs1)
      | (Inr ys, fs1) \<Rightarrow> normalize_loop body fs1 cols (AList.update column ys normalized_df))"

definition minmax_normalize :: "'k LogPreprocessor \<Rightarrow> 'k table \<Rightarrow> (error + 'k table) \<times> 'k LogPreprocessor" where
  "minmax_normalize self df =
     (case normalize_loop minmax_column (feature_stats self) df df of
        (r, fs) \<Rightarrow> (r, self\<lparr>feature_stats := fs\<rparr>))"




text \<open>
  The dictionary that the loop body uses for a column: the cached one if there is one,
  otherwise the one computed from the column.
\<close>

definition entry_of :: "(cell list \<Rightarrow> (string \<rightharpoonup> cell)) \<Rightarrow> 'k stats \<Rightarrow> 'k \<Rightarrow> cell list \<Rightarrow> (string \<rightharpoonup> cell)" where
  "entry_of fit fs c xs = (case fs c of None \<Rightarrow> fit xs | Some d \<Rightarrow> d)"





section \<open>Properties of the format parser\<close>

lemmas hdfs_eval = parse_logs_def parse_logs_list_def parse_line_def line_body_def hdfs_body_def
  hdfs_fields_def bind_err_def py_int_def strip_def py_isspace_def int_unsigned_def is_digit_def
  digit_val_def datetime_new_def fits_c_int_def days_in_month_def is_leap_def numeral_3_eq_3

lemma parse_loop_eq: "parse_loop f logs acc = acc @ List.map_filter f logs"
  by (induction logs arbitrary: acc) (auto simp: map_filter_simps split: option.splits)

lemma length_map_filter_le: "length (List.map_filter f xs) \<le> length xs"
  by (simp add: map_filter_def)

lemma map_filter_append: "List.map_filter f (xs @ ys) = List.map_filter f xs @ List.map_filter f ys"
  by (simp add: map_filter_def)

lemma line_fails_None: "line_fails sp cfg lt l \<Longrightarrow> parse_line sp cfg lt l = None"
  by (auto simp: line_fails_def parse_line_def split: sum.splits step.splits option.splits)

text \<open>
  C1, as the code has it: with log type \<^verbatim>\<open>hdfs\<close> the example line gives exactly one
  record, with timestamp 2008-11-09 20:35:18; its message is the fourth part of
  \<^verbatim>\<open>split(' ', 3)\<close>, the text after the thread id \<^verbatim>\<open>148\<close>, so it starts at \<^verbatim>\<open>INFO\<close>.
\<close>

theorem hdfs_line_parses:
  "parse_logs sp td cfg (Lines [''081109 203518 148 INFO dfs.DataNode$PacketResponder: PacketResponder 1 for block blk_38865049064139660 terminating'']) ''hdfs'' st
   = (Inr (Rows [\<lparr>timestamp = \<lparr>year = 2008, month = 11, day = 9, hour = 20, minute = 35, second = 18\<rparr>,
                  message = ''INFO dfs.DataNode$PacketResponder: PacketResponder 1 for block blk_38865049064139660 terminating''\<rparr>]), st)"
  by (simp add: hdfs_eval)

text \<open>
  C1 as stated fails: the record's message is not the text that starts at the thread
  id \<^verbatim>\<open>148\<close>.
\<close>

theorem hdfs_line_message_counterexample:
  "fst (parse_logs strptime_none to_datetime_none default_config (Lines [''081109 203518 148 INFO dfs.DataNode$PacketResponder: PacketResponder 1 for block blk_38865049064139660 terminating'']) ''hdfs'' [])
   \<noteq> Inr (Rows [\<lparr>timestamp = \<lparr>year = 2008, month = 11, day = 9, hour = 20, minute = 35, second = 18\<rparr>,
                  message = ''148 INFO dfs.DataNode$PacketResponder: PacketResponder 1 for block blk_38865049064139660 terminating''\<rparr>])"
  by (simp add: hdfs_eval)

text \<open>
  C9: on a list of lines \<^verbatim>\<open>parse_logs\<close> returns a table for every log type and every
  behaviour of \<^verbatim>\<open>strptime\<close>; the table holds the records of the lines that parse, in
  order, so it has at most as many rows as there are lines; and a failing line
  anywhere in the list changes nothing in the result.
\<close>

theorem parse_logs_lines_never_raise:
  "(\<exists>rows. parse_logs sp td cfg (Lines logs) lt st = (Inr (Rows rows), st)
       \<and> rows = List.map_filter (parse_line sp cfg lt) logs
       \<and> length rows \<le> length logs)
   \<and> (line_fails sp cfg lt bad \<longrightarrow>
        parse_logs sp td cfg (Lines (xs @ bad # ys)) lt st = parse_logs sp td cfg (Lines (xs @ ys)) lt st)"
  by (simp add: parse_logs_def parse_logs_list_def parse_loop_eq length_map_filter_le
        map_filter_append map_filter_simps line_fails_None)

theorem parse_logs_lines_never_raise_witness:
  "line_fails strptime_none default_config ''hdfs'' ''0811zz 203518 148 INFO a''
   \<and> parse_logs strptime_none to_datetime_none default_config
        (Lines [''081109 203518 148 INFO a'', ''0811zz 203518 148 INFO a'', ''081110 000000 7 WARN b'']) ''hdfs'' []
     = (Inr (Rows [\<lparr>timestamp = \<lparr>year = 2008, month = 11, day = 9, hour = 20, minute = 35, second = 18\<rparr>, message = ''INFO a''\<rparr>,
                   \<lparr>timestamp = \<lparr>year = 2008, month = 11, day = 10, hour = 0, minute = 0, second = 0\<rparr>, message = ''WARN b''\<rparr>]), [])"
proof -
  have h: "line_fails strptime_none default_config ''hdfs'' ''0811zz 203518 148 INFO a''"
    by (simp add: line_fails_def hdfs_eval)
  have e: "parse_logs strptime_none to_datetime_none default_config
        (Lines ([''081109 203518 148 INFO a''] @ [''081110 000000 7 WARN b''])) ''hdfs'' []
     = (Inr (Rows [\<lparr>timestamp = \<lparr>year = 2008, month = 11, day = 9, hour = 20, minute = 35, second = 18\<rparr>, message = ''INFO a''\<rparr>,
                   \<lparr>timestamp = \<lparr>year = 2008, month = 11, day = 10, hour = 0, minute = 0, second = 0\<rparr>, message = ''WARN b''\<rparr>]), [])"
    by (simp add: hdfs_eval)
  from parse_logs_lines_never_raise [of strptime_none to_datetime_none default_config _ "''hdfs''" "[]"
        "''0811zz 203518 148 INFO a''" "[''081109 203518 148 INFO a'']" "[''081110 000000 7 WARN b'']",
        THEN conjunct2, rule_format, OF h]
  have "parse_logs strptime_none to_datetime_none default_config
        (Lines ([''081109 203518 148 INFO a''] @ ''0811zz 203518 148 INFO a'' # [''081110 000000 7 WARN b''])) ''hdfs'' []
     = parse_logs strptime_none to_datetime_none default_config
        (Lines ([''081109 203518 148 INFO a''] @ [''081110 000000 7 WARN b''])) ''hdfs'' []" .
  with e h show ?thesis by simp
qed

text \<open>
  C10: given the address of a table that has the columns \<^verbatim>\<open>timestamp\<close> and
  \<^verbatim>\<open>message\<close>, whose timestamp column is not of a datetime dtype and converts,
  \<^verbatim>\<open>parse_logs\<close> returns a new address; at the argument's address the store now holds
  the table with the converted column (the caller's object is changed), the new
  object has the same contents, every other object is untouched, and a later write
  to the returned object leaves the argument as it is.
\<close>

theorem parse_logs_frame_mutates_argument:
  assumes "a < length st"
    and "map_of (st ! a) ''timestamp'' = Some col"
    and "''message'' \<in> columns (st ! a)"
    and "\<not> is_datetime64_any_dtype col"
    and "td col (if lt = ''apache'' then apache_timestamp_format cfg else timestamp_format cfg) = Inr conv"
  shows "\<exists>st'. parse_logs sp td cfg (Frame a) lt st = (Inr (FrameAt (length st)), st')
           \<and> length st' = Suc (length st)
           \<and> st' ! a = AList.update ''timestamp'' (Datetime64 conv) (st ! a)
           \<and> st' ! length st = st' ! a
           \<and> (\<forall>b < length st. b \<noteq> a \<longrightarrow> st' ! b = st ! b)
           \<and> (\<forall>df. (st'[length st := df]) ! a = st' ! a)"
proof -
  from assms(2) have ts: "''timestamp'' \<in> columns (st ! a)"
    by (auto simp: columns_def dest: map_of_SomeD intro: rev_image_eqI)
  show ?thesis
    using assms ts
    by (auto simp: parse_logs_def parse_logs_frame_def Let_def frame_copy_def nth_append)
qed

theorem parse_logs_frame_mutates_argument_witness:
  "(0::nat) < length [[(''timestamp'', Object [''2024-03-15 10:00:00'']), (''message'', Object [''started''])]]
   \<and> parse_logs strptime_none to_datetime_midnight default_config (Frame 0) ''default''
        [[(''timestamp'', Object [''2024-03-15 10:00:00'']), (''message'', Object [''started''])]]
      = (Inr (FrameAt 1),
         [[(''timestamp'', Datetime64 [\<lparr>year = 2024, month = 3, day = 15, hour = 0, minute = 0, second = 0\<rparr>]), (''message'', Object [''started''])],
          [(''timestamp'', Datetime64 [\<lparr>year = 2024, month = 3, day = 15, hour = 0, minute = 0, second = 0\<rparr>]), (''message'', Object [''started''])]])"
proof -
  let ?st = "[[(''timestamp'', Object [''2024-03-15 10:00:00'']), (''message'', Object [''started''])]]"
  have 1: "(0::nat) < length ?st" by simp
  have 2: "map_of (?st ! 0) ''timestamp'' = Some (Object [''2024-03-15 10:00:00''])" by simp
  have 3: "''message'' \<in> columns (?st ! 0)" by (simp add: columns_def)
  have 4: "\<not> is_datetime64_any_dtype (Object [''2024-03-15 10:00:00''])" by (simp add: is_datetime64_any_dtype_def)
  have 5: "to_datetime_midnight (Object [''2024-03-15 10:00:00''])
             (if ''default'' = ''apache'' then apache_timestamp_format default_config else timestamp_format default_config)
           = Inr [\<lparr>year = 2024, month = 3, day = 15, hour = 0, minute = 0, second = 0\<rparr>]"
    by (simp add: to_datetime_midnight_def)
  from parse_logs_frame_mutates_argument [where sp = strptime_none and td = to_datetime_midnight
        and cfg = default_config and lt = "''default''" and a = 0 and st = ?st
        and col = "Object [''2024-03-15 10:00:00'']"
        and conv = "[\<lparr>year = 2024, month = 3, day = 15, hour = 0, minute = 0, second = 0\<rparr>]", OF 1 2 3 4 5]
  obtain st' where r: "parse_logs strptime_none to_datetime_midnight default_config (Frame 0) ''default'' ?st
        = (Inr (FrameAt (length ?st)), st')"
     and l: "length st' = Suc (length ?st)"
     and a: "st' ! 0 = AList.update ''timestamp'' (Datetime64 [\<lparr>year = 2024, month = 3, day = 15, hour = 0, minute = 0, second = 0\<rparr>]) (?st ! 0)"
     and c: "st' ! length ?st = st' ! 0"
    by blast
  from l a c have "st' = [[(''timestamp'', Datetime64 [\<lparr>year = 2024, month = 3, day = 15, hour = 0, minute = 0, second = 0\<rparr>]), (''message'', Object [''started''])],
          [(''timestamp'', Datetime64 [\<lparr>year = 2024, month = 3, day = 15, hour = 0, minute = 0, second = 0\<rparr>]), (''message'', Object [''started''])]]"
    by (cases st'; cases "tl st'") (auto simp: )
  with r 1 show ?thesis by simp
qed

section \<open>Properties of the duration grammar\<close>

lemmas pts_eval = parse_time_str_def bind_err_def py_int_def strip_def py_isspace_def int_unsigned_def is_digit_def
  is_alpha_def digit_val_def unit_map_def str_lower_def to_lower_def pd_Timedelta_def












text \<open>
  The match is not anchored at the end of the string: text after the unit is ignored.
\<close>

lemma trailing_text_accepted:
  "parse_time_str ''5min!'' = Inr 300 \<and> \<not> spec_duration_grammar ''5min!''"
  by (simp add: pts_eval spec_duration_grammar_def dec_value_def)

section \<open>Properties of the windowing engine\<close>

lemma window_loop_eq:
  "window_loop cfg ws acc = acc @ map (cut_to_max cfg) (filter (enough_logs cfg) (map snd ws))"
  by (induction cfg ws acc rule: window_loop.induct) auto


lemma validated_bounds:
  assumes "validate_window_params cfg = Inr ()"
  shows "1 \<le> min_logs_per_window cfg"
    and "max_logs_per_window cfg = Some m \<Longrightarrow> min_logs_per_window cfg \<le> m"
  using assms by (auto simp: validate_window_params_def split: if_splits option.splits)

lemma cut_to_max_not_Nil:
  assumes "validate_window_params cfg = Inr ()" and "enough_logs cfg window"
  shows "cut_to_max cfg window \<noteq> []"
proof -
  from assms have w: "window \<noteq> []"
    using validated_bounds(1) [OF assms(1)] by (auto simp: enough_logs_def)
  show ?thesis
  proof (cases "max_logs_per_window cfg")
    case None
    with w show ?thesis by (simp add: cut_to_max_def)
  next
    case (Some m)
    with validated_bounds [OF assms(1)] have "1 \<le> m" by fastforce
    with Some w show ?thesis by (simp add: cut_to_max_def df_head_def)
  qed
qed

lemma create_time_windows_unfold:
  assumes "freq (window_size cfg) = Inr w" and "0 < w"
  shows "create_time_windows freq cfg df =
     (let valid_windows = map (cut_to_max cfg) (filter (enough_logs cfg) (map snd (resample w df)))
      in if valid_windows = [] then Inl ValueError
         else Inr (map (\<lambda>(label, g). (label, aggregate (ncols (concat valid_windows)) g))
                       (resample w (concat valid_windows))))"
  using assms by (simp add: create_time_windows_def bind_err_def window_loop_eq Let_def)



lemma bin_label_aligned:
  assumes "0 < w" and "w dvd origin"
  shows "bin_label w origin t = (t div w) * w"
proof -
  from assms(2) obtain k where k: "origin = w * k" by (auto elim: dvdE)
  have "t - w * k = t + (- k) * w" by simp
  moreover have "(t + (- k) * w) div w = - k + t div w"
    using assms(1) by (intro div_mult_self1) simp
  ultimately have "(t - w * k) div w = - k + t div w" by (simp only:)
  then have "(t - w * k) div w * w = (t div w - k) * w" by simp
  also have "\<dots> = (t div w) * w - w * k" by (simp add: algebra_simps)
  finally show ?thesis by (simp add: bin_label_def k)
qed

lemma start_day_dvd: "w dvd 86400 \<Longrightarrow> w dvd start_day t"
  by (simp add: start_day_def)

lemma floor_unique:
  fixes w l t :: int
  assumes "0 < w" and "w dvd l" and "l \<le> t" and "t < l + w"
  shows "(t div w) * w = l"
proof -
  from assms(2) obtain q where q: "l = w * q" by (auto elim: dvdE)
  have "t div w = q"
    by (rule int_div_pos_eq [of t w q "t - w * q"]) (use assms q in auto)
  with q show ?thesis by simp
qed

lemma in_bin_label:
  "0 < w \<Longrightarrow> w dvd l \<Longrightarrow> in_bin w l r \<Longrightarrow> (fst r div w) * w = l"
  by (rule floor_unique) (auto simp: in_bin_def)

lemma in_bin_disjoint:
  "0 < w \<Longrightarrow> w dvd l \<Longrightarrow> w dvd l' \<Longrightarrow> in_bin w l r \<Longrightarrow> in_bin w l' r \<Longrightarrow> l = l'"
  using in_bin_label by metis

lemma sorted_hd_le: "sorted xs \<Longrightarrow> x \<in> set xs \<Longrightarrow> hd xs \<le> (x::int)"
  by (cases xs) auto

lemma sorted_le_last: "sorted xs \<Longrightarrow> x \<in> set xs \<Longrightarrow> (x::int) \<le> last xs"
  by (induction xs) (auto simp: )

lemma resample_aligned:
  assumes "0 < w" and "w dvd 86400" and "df \<noteq> []"
  shows "resample w df =
     map (\<lambda>l. (l, filter (in_bin w l) (sort_key fst df)))
       (map (\<lambda>k. (fst (hd (sort_key fst df)) div w) * w + int k * w)
          [0 ..< Suc (nat (fst (last (sort_key fst df)) div w - fst (hd (sort_key fst df)) div w))])"
proof -
  have d: "(a * w - b * w) div w = a - b" for a b
  proof -
    have "(a * w - b * w) div w = ((a - b) * w) div w" by (simp add: algebra_simps)
    then show ?thesis using assms(1) by simp
  qed
  show ?thesis
    using assms(3)
    by (simp add: resample_def Let_def bin_label_aligned [OF assms(1) start_day_dvd [OF assms(2)]] d)
qed

lemma resample_label_dvd:
  assumes "0 < w" and "w dvd 86400" and "(l, g) \<in> set (resample w df)"
  shows "w dvd l" and "g = filter (in_bin w l) (sort_key fst df)"
proof -
  from assms(3) have ne: "df \<noteq> []" by (auto simp: resample_def)
  from assms(3) show "w dvd l" and "g = filter (in_bin w l) (sort_key fst df)"
    unfolding resample_aligned [OF assms(1,2) ne] by auto
qed

lemma resample_distinct:
  assumes "0 < w" and "w dvd 86400"
  shows "distinct (map fst (resample w df))"
proof (cases "df = []")
  case True
  then show ?thesis by (simp add: resample_def)
next
  case False
  have "inj_on (\<lambda>k. c + int k * w) A" for c A
    using assms(1) by (auto simp: inj_on_def)
  then show ?thesis
    unfolding resample_aligned [OF assms False]
    by (simp add: comp_def distinct_map del: upt_Suc)
qed

lemma resample_has_bin:
  assumes "0 < w" and "w dvd 86400" and "r \<in> set df"
  shows "((fst r div w) * w, filter (in_bin w ((fst r div w) * w)) (sort_key fst df)) \<in> set (resample w df)"
proof -
  let ?ax = "sort_key fst df"
  from assms(3) have ne: "df \<noteq> []" by auto
  then have ane: "?ax \<noteq> []" by (metis length_0_conv length_sort)
  have s: "sorted (map fst ?ax)" by simp
  have m: "fst r \<in> set (map fst ?ax)" using assms(3) by simp
  have "hd (map fst ?ax) \<le> fst r" by (rule sorted_hd_le [OF s m])
  then have lo: "fst (hd ?ax) \<le> fst r" using ane by (simp add: hd_map)
  have "fst r \<le> last (map fst ?ax)" by (rule sorted_le_last [OF s m])
  then have hi: "fst r \<le> fst (last ?ax)" using ane by (simp add: last_map)
  let ?a = "fst (hd ?ax) div w" and ?b = "fst (last ?ax) div w" and ?q = "fst r div w"
  from lo hi assms(1) have q: "?a \<le> ?q" "?q \<le> ?b" by (auto intro: zdiv_mono1)
  let ?k = "nat (?q - ?a)"
  from q have k: "?k < Suc (nat (?b - ?a))" by auto
  from q have e: "?q * w = ?a * w + int ?k * w" by (simp add: algebra_simps)
  have "?q * w \<in> (\<lambda>k. ?a * w + int k * w) ` {0 ..< Suc (nat (?b - ?a))}"
    by (rule image_eqI [where x = ?k]) (use e k in auto)
  then have "?q * w \<in> set (map (\<lambda>k. ?a * w + int k * w) [0 ..< Suc (nat (?b - ?a))])"
    by (simp only: set_map set_upt)
  then show ?thesis
    unfolding resample_aligned [OF assms(1,2) ne] by (simp only: set_map) (rule imageI)
qed


lemma filter_none: "(\<And>x. x \<in> set xs \<Longrightarrow> \<not> P x) \<Longrightarrow> filter P xs = []"
  by (simp add: filter_empty_conv)

lemma rows_of_other_bins:
  assumes "0 < w" and "w dvd l0"
    and "\<forall>(l, g) \<in> set W. w dvd l \<and> l \<noteq> l0 \<and> (\<forall>r \<in> set g. in_bin w l r)"
    and "\<And>g. set (h g) \<subseteq> set g"
  shows "filter (in_bin w l0) (concat (map h (filter p (map snd W)))) = []"
proof (rule filter_none)
  fix r assume "r \<in> set (concat (map h (filter p (map snd W))))"
  then obtain l g where lg: "(l, g) \<in> set W" and r: "r \<in> set (h g)" by auto
  from r assms(4) have "r \<in> set g" by auto
  with lg assms(3) have "w dvd l" "l \<noteq> l0" "in_bin w l r" by auto
  then show "\<not> in_bin w l0 r"
    using in_bin_disjoint [OF assms(1), of l l0 r] assms(2) by auto
qed

lemma rows_of_own_bin:
  assumes "0 < w"
    and "distinct (map fst W)"
    and "\<forall>(l, g) \<in> set W. w dvd l \<and> (\<forall>r \<in> set g. in_bin w l r)"
    and "\<And>g. set (h g) \<subseteq> set g"
    and "(l0, g0) \<in> set W" and "p g0"
  shows "filter (in_bin w l0) (concat (map h (filter p (map snd W)))) = h g0"
  using assms(2,3,5)
proof (induction W)
  case Nil
  then show ?case by simp
next
  case (Cons a W)
  obtain l g where a: "a = (l, g)" by (cases a)
  from Cons.prems(2) a have here: "w dvd l" "\<forall>r \<in> set g. in_bin w l r"
    and rest: "\<forall>(l, g) \<in> set W. w dvd l \<and> (\<forall>r \<in> set g. in_bin w l r)"
    by auto
  from Cons.prems(1) a have nl: "l \<notin> fst ` set W" and dW: "distinct (map fst W)" by auto
  show ?case
  proof (cases "(l0, g0) = (l, g)")
    case True
    then have eq: "l0 = l" "g0 = g" by auto
    have own: "filter (in_bin w l) (h g) = h g"
      using here(2) assms(4) by (auto simp: filter_id_conv)
    have "\<forall>(l', g') \<in> set W. w dvd l' \<and> l' \<noteq> l \<and> (\<forall>r \<in> set g'. in_bin w l' r)"
      using rest nl by (auto simp: image_iff)
    then have "filter (in_bin w l) (concat (map h (filter p (map snd W)))) = []"
      by (rule rows_of_other_bins [OF assms(1) here(1) _ assms(4)])
    with own show ?thesis using assms(6) by (simp add: a eq)
  next
    case False
    with Cons.prems(3) a have mem: "(l0, g0) \<in> set W" by auto
    with nl have ne: "l \<noteq> l0" by (auto simp: image_iff)
    from mem rest have d0: "w dvd l0" by auto
    have "filter (in_bin w l0) (h g) = []"
    proof (rule filter_none)
      fix r assume "r \<in> set (h g)"
      with assms(4) here(2) have "in_bin w l r" by auto
      then show "\<not> in_bin w l0 r"
        using in_bin_disjoint [OF assms(1) here(1) d0, of r] ne by blast
    qed
    moreover have "filter (in_bin w l0) (concat (map h (filter p (map snd W)))) = h g0"
      by (rule Cons.IH [OF dW rest mem])
    ultimately show ?thesis by (simp add: a)
  qed
qed

lemma set_cut_to_max: "set (cut_to_max cfg g) \<subseteq> set g"
  by (auto simp: cut_to_max_def df_head_def split: option.splits dest: in_set_takeD)

lemma sorted_cut_to_max: "sorted (map fst g) \<Longrightarrow> sorted (map fst (cut_to_max cfg g))"
  by (auto simp: cut_to_max_def df_head_def sorted_map split: option.splits)

lemma valid_window_is_group:
  assumes w: "0 < w" "w dvd 86400"
    and win: "(l, window) \<in> set (resample w df)" "enough_logs cfg window"
    and ne: "cut_to_max cfg window \<noteq> []"
  shows "(l, cut_to_max cfg window)
           \<in> set (resample w (concat (map (cut_to_max cfg) (filter (enough_logs cfg) (map snd (resample w df))))))"
proof -
  let ?D = "concat (map (cut_to_max cfg) (filter (enough_logs cfg) (map snd (resample w df))))"
  have bins: "\<forall>(l, g) \<in> set (resample w df). w dvd l \<and> (\<forall>r \<in> set g. in_bin w l r)"
    using resample_label_dvd [OF w] by fastforce
  have own: "filter (in_bin w l) ?D = cut_to_max cfg window"
    by (rule rows_of_own_bin [where h = "cut_to_max cfg" and p = "enough_logs cfg" and W = "resample w df",
          OF w(1) resample_distinct [OF w] bins set_cut_to_max win])
  from win(1) have "window = filter (in_bin w l) (sort_key fst df)"
    by (rule resample_label_dvd(2) [OF w])
  then have "sorted (map fst window)" by (simp add: sorted_filter)
  then have "sorted (map fst (cut_to_max cfg window))" by (rule sorted_cut_to_max)
  then have sk: "sort_key fst (cut_to_max cfg window) = cut_to_max cfg window"
    by (rule sort_key_id_if_sorted)
  have grp: "filter (in_bin w l) (sort_key fst ?D) = cut_to_max cfg window"
    by (simp add: filter_sort own sk)
  from ne obtain r where r: "r \<in> set (cut_to_max cfg window)" by (cases "cut_to_max cfg window") auto
  then have "r \<in> set (filter (in_bin w l) ?D)" by (simp only: own)
  then have rD: "r \<in> set ?D" and rb: "in_bin w l r" by simp_all
  from win(1) have "w dvd l" by (rule resample_label_dvd(1) [OF w])
  with rb have lab: "(fst r div w) * w = l" by (intro in_bin_label [OF w(1)])
  from resample_has_bin [OF w rD] show ?thesis by (simp add: lab grp)
qed


lemmas win_eval = eval_nat_numeral resample_def start_day_def bin_label_def in_bin_def Let_def
  enough_logs_def cut_to_max_def df_head_def

lemmas agg_eval = aggregate_def column_values_def series_mean_def series_std_def series_min_def
  series_max_def

lemma window_2min: "parse_time_str ''2min'' = Inr 120"
  by (simp add: pts_eval)

lemma map_fst_relabel: "map fst (map (\<lambda>(label, g). (label, f g)) xs) = map fst xs"
  by (induction xs) auto

text \<open>
  C3, as the code has it. For a window width that divides the day, a validated
  configuration and a table with \<open>n\<close> feature columns, every candidate window with
  enough rows has one row in the output, under its start time; the \<^verbatim>\<open>std\<close> of each
  feature there is the sample standard deviation (denominator \<open>n - 1\<close>) of the
  retained rows of that window, and it is undefined (NaN) when exactly one row is
  retained.
\<close>

theorem std_is_sample_std:
  assumes "freq (window_size cfg) = Inr w" and "0 < w" and "w dvd 86400"
    and "validate_window_params cfg = Inr ()"
    and "\<forall>r \<in> set df. length (snd r) = n"
    and "(l, window) \<in> set (resample w df)" and "enough_logs cfg window"
  shows "\<exists>out aggs. create_time_windows freq cfg df = Inr out
          \<and> map_of out l = Some aggs
          \<and> length aggs = n
          \<and> (\<forall>j < n. std_of (aggs ! j) = series_std (column_values j (cut_to_max cfg window)))
          \<and> (length (cut_to_max cfg window) = 1 \<longrightarrow> (\<forall>a \<in> set aggs. std_of a = None))"
proof -
  let ?valid = "map (cut_to_max cfg) (filter (enough_logs cfg) (map snd (resample w df)))"
  let ?D = "concat ?valid"
  let ?out = "map (\<lambda>(label, g). (label, aggregate (ncols ?D) g)) (resample w ?D)"
  let ?g = "cut_to_max cfg window"
  note w = assms(2,3)
  have ne: "?g \<noteq> []" by (rule cut_to_max_not_Nil [OF assms(4,7)])
  from assms(6,7) have mem: "?g \<in> set ?valid" by force
  have vne: "?valid \<noteq> []" using mem by (metis empty_iff empty_set)
  have res: "create_time_windows freq cfg df = Inr ?out"
    using create_time_windows_unfold [where freq = freq and cfg = cfg and w = w and df = df, OF assms(1,2)] vne
    by (simp add: Let_def)
  have grp: "(l, ?g) \<in> set (resample w ?D)"
    by (rule valid_window_is_group [OF w assms(6,7) ne])
  then have inout: "(l, aggregate (ncols ?D) ?g) \<in> set ?out" by force
  have "distinct (map fst ?out)"
    unfolding map_fst_relabel by (rule resample_distinct [OF w])
  then have mo: "map_of ?out l = Some (aggregate (ncols ?D) ?g)"
    using inout by (rule map_of_is_SomeI)
  have sub: "set ?D \<subseteq> set df"
  proof
    fix r assume "r \<in> set ?D"
    then obtain l' g' where lg: "(l', g') \<in> set (resample w df)" and r: "r \<in> set (cut_to_max cfg g')"
      by auto
    from r set_cut_to_max have "r \<in> set g'" by blast
    with resample_label_dvd(2) [OF w lg] show "r \<in> set df" by simp
  qed
  from mem ne have Dne: "?D \<noteq> []" by (metis concat_eq_Nil_conv)
  then have "hd ?D \<in> set ?D" by (rule hd_in_set)
  with sub have "hd ?D \<in> set df" by blast
  with assms(5) have "length (snd (hd ?D)) = n" by blast
  with Dne have nc: "ncols ?D = n" by (cases ?D) (simp_all add: ncols_def)
  have len: "length (aggregate n ?g) = n" by (simp add: aggregate_def)
  have std: "\<forall>j < n. std_of (aggregate n ?g ! j) = series_std (column_values j ?g)"
    by (simp add: aggregate_def)
  have one: "length ?g = 1 \<longrightarrow> (\<forall>a \<in> set (aggregate n ?g). std_of a = None)"
    by (auto simp: aggregate_def series_std_def column_values_def)
  from res mo len std one show ?thesis unfolding nc by blast
qed

theorem std_is_sample_std_witness:
  "parse_time_str (window_size (default_config\<lparr>window_size := ''2min''\<rparr>)) = Inr 120
   \<and> (120::int) dvd 86400
   \<and> validate_window_params (default_config\<lparr>window_size := ''2min''\<rparr>) = Inr ()
   \<and> (36120, [(36120, [5])]) \<in> set (resample 120 [(36000, [1]), (36030, [3]), (36120, [5])])
   \<and> enough_logs (default_config\<lparr>window_size := ''2min''\<rparr>) [(36120, [5])]
   \<and> (\<exists>out aggs. create_time_windows parse_time_str (default_config\<lparr>window_size := ''2min''\<rparr>)
                     [(36000, [1]), (36030, [3]), (36120, [5])] = Inr out
          \<and> map_of out 36120 = Some aggs
          \<and> length aggs = 1
          \<and> std_of (aggs ! 0) = None)"
proof -
  let ?cfg = "default_config\<lparr>window_size := ''2min''\<rparr>"
  let ?df = "[(36000, [1]), (36030, [3]), (36120, [5])] :: row list"
  have 1: "parse_time_str (window_size ?cfg) = Inr 120" by (simp add: window_2min)
  have 2: "(0::int) < 120" by simp
  have 3: "(120::int) dvd 86400" by simp
  have 4: "validate_window_params ?cfg = Inr ()"
    by (simp add: validate_window_params_def default_config_def)
  have 5: "\<forall>r \<in> set ?df. length (snd r) = 1" by simp
  have 6: "(36120, [(36120, [5])]) \<in> set (resample 120 ?df)" by (simp add: win_eval)
  have 7: "enough_logs ?cfg [(36120, [5])]" by (simp add: enough_logs_def default_config_def)
  have c: "cut_to_max ?cfg [(36120, [5])] = [(36120, [5])]"
    by (simp add: cut_to_max_def default_config_def)
  from std_is_sample_std [where freq = parse_time_str and cfg = ?cfg and w = 120 and df = ?df
      and n = 1 and l = 36120 and window = "[(36120, [5])]", OF 1 2 3 4 5 6 7]
  obtain out aggs where "create_time_windows parse_time_str ?cfg ?df = Inr out"
      "map_of out 36120 = Some aggs" "length aggs = 1"
      "length (cut_to_max ?cfg [(36120, [5])]) = 1 \<longrightarrow> (\<forall>a \<in> set aggs. std_of a = None)"
    by blast
  moreover from this have "std_of (aggs ! 0) = None" by (simp add: c)
  ultimately show ?thesis using 1 3 4 6 7 by blast
qed

text \<open>
  C3 as stated fails: a window with a single record has \<^verbatim>\<open>std\<close> NaN, where the
  population standard deviation is 0.
\<close>

theorem single_record_std_counterexample:
  "create_time_windows parse_time_str (default_config\<lparr>window_size := ''2min''\<rparr>) [(36000, [5])]
     = Inr [(36000, [\<lparr>mean_of = Some 5, std_of = None, min_of = Some 5, max_of = Some 5\<rparr>])]
   \<and> population_std (column_values 0 [(36000, [5])]) = Some 0"
proof -
  have ws: "window_size (default_config\<lparr>window_size := ''2min''\<rparr>) = ''2min''" by simp
  have r: "resample 120 [(36000, [5])] = [(36000, [(36000, [5])])]" by (simp add: win_eval)
  have l: "window_loop (default_config\<lparr>window_size := ''2min''\<rparr>) [(36000, [(36000, [5])])] []
      = [[(36000, [5])]]"
    by (simp add: win_eval default_config_def)
  have a: "aggregate (Suc 0) [(36000, [5])]
      = [\<lparr>mean_of = Some 5, std_of = None, min_of = Some 5, max_of = Some 5\<rparr>]"
    by (simp add: agg_eval)
  have "create_time_windows parse_time_str (default_config\<lparr>window_size := ''2min''\<rparr>) [(36000, [5])]
     = Inr [(36000, [\<lparr>mean_of = Some 5, std_of = None, min_of = Some 5, max_of = Some 5\<rparr>])]"
    unfolding create_time_windows_def ws window_2min bind_err_def
    by (simp add: r l a ncols_def del: window_loop.simps)
  moreover have "population_std (column_values 0 [(36000, [5])]) = Some 0"
    by (simp add: population_std_def column_values_def)
  ultimately show ?thesis by simp
qed


lemma gap_resample:
  "resample 120 [(36000, [5]), (36030, [5]), (36120, [5]), (36240, [5]), (36270, [5])]
   = [(36000, [(36000, [5]), (36030, [5])]), (36120, [(36120, [5])]),
      (36240, [(36240, [5]), (36270, [5])])]"
  by (simp add: win_eval)

lemma gap_retained_resample:
  "resample 120 [(36000, [5]), (36030, [5]), (36240, [5]), (36270, [5])]
   = [(36000, [(36000, [5]), (36030, [5])]), (36120, []), (36240, [(36240, [5]), (36270, [5])])]"
  by (simp add: win_eval)

lemma aggregate_pair:
  "aggregate (Suc 0) [(a, [5]), (b, [5])]
   = [\<lparr>mean_of = Some 5, std_of = Some 0, min_of = Some 5, max_of = Some 5\<rparr>]"
  by (simp add: agg_eval)

lemma aggregate_none:
  "aggregate (Suc 0) [] = [\<lparr>mean_of = None, std_of = None, min_of = None, max_of = None\<rparr>]"
  by (simp add: agg_eval)


text \<open>
  C7 on a concrete table: with a two-minute window and \<^verbatim>\<open>min_logs_per_window = 2\<close>,
  the candidate window at 36120 holds one row and is filtered out, yet the final
  \<^verbatim>\<open>groupby\<close> bins the retained rows again from the first to the last, so the output
  has a row at 36120, with every statistic NaN.
\<close>

theorem dropped_window_leaves_empty_row:
  "(36120, [(36120, [5])])
      \<in> set (resample 120 [(36000, [5]), (36030, [5]), (36120, [5]), (36240, [5]), (36270, [5])])
   \<and> \<not> enough_logs (default_config\<lparr>window_size := ''2min'', min_logs_per_window := 2\<rparr>) [(36120, [5])]
   \<and> create_time_windows parse_time_str (default_config\<lparr>window_size := ''2min'', min_logs_per_window := 2\<rparr>)
        [(36000, [5]), (36030, [5]), (36120, [5]), (36240, [5]), (36270, [5])]
      = Inr [(36000, [\<lparr>mean_of = Some 5, std_of = Some 0, min_of = Some 5, max_of = Some 5\<rparr>]),
             (36120, [\<lparr>mean_of = None, std_of = None, min_of = None, max_of = None\<rparr>]),
             (36240, [\<lparr>mean_of = Some 5, std_of = Some 0, min_of = Some 5, max_of = Some 5\<rparr>])]"
proof -
  let ?cfg = "default_config\<lparr>window_size := ''2min'', min_logs_per_window := 2\<rparr>"
  have ws: "window_size ?cfg = ''2min''" by simp
  have l: "window_loop ?cfg
     [(36000, [(36000, [5]), (36030, [5])]), (36120, [(36120, [5])]),
      (36240, [(36240, [5]), (36270, [5])])] []
   = [[(36000, [5]), (36030, [5])], [(36240, [5]), (36270, [5])]]"
    by (simp add: win_eval default_config_def)
  have "create_time_windows parse_time_str ?cfg
        [(36000, [5]), (36030, [5]), (36120, [5]), (36240, [5]), (36270, [5])]
      = Inr [(36000, [\<lparr>mean_of = Some 5, std_of = Some 0, min_of = Some 5, max_of = Some 5\<rparr>]),
             (36120, [\<lparr>mean_of = None, std_of = None, min_of = None, max_of = None\<rparr>]),
             (36240, [\<lparr>mean_of = Some 5, std_of = Some 0, min_of = Some 5, max_of = Some 5\<rparr>])]"
    unfolding create_time_windows_def ws window_2min bind_err_def
    by (simp add: gap_resample l gap_retained_resample aggregate_pair aggregate_none ncols_def
          del: window_loop.simps)
  then show ?thesis by (simp add: gap_resample enough_logs_def)
qed

text \<open>
  C2 on the code: the result of \<^verbatim>\<open>create_time_windows\<close> does not depend on
  \<^verbatim>\<open>window_stride\<close>; with a two-minute window and a one-minute stride the windows start
  two minutes apart.
\<close>

theorem window_stride_not_read:
  "create_time_windows freq (cfg\<lparr>window_stride := stride\<rparr>) df = create_time_windows freq cfg df
   \<and> get_stride_timedelta (default_config\<lparr>window_size := ''2min'', window_stride := Some ''1min''\<rparr>) = Inr 60
   \<and> map_sum id (map fst)
        (create_time_windows parse_time_str (default_config\<lparr>window_size := ''2min'', window_stride := Some ''1min''\<rparr>)
           [(36000, [5]), (36060, [5]), (36120, [5]), (36180, [5])])
      = Inr [36000, 36120]"
proof -
  let ?cfg = "default_config\<lparr>window_size := ''2min'', window_stride := Some ''1min''\<rparr>"
  have ws: "window_size ?cfg = ''2min''" by simp
  have r: "resample 120 [(36000, [5]), (36060, [5]), (36120, [5]), (36180, [5])]
      = [(36000, [(36000, [5]), (36060, [5])]), (36120, [(36120, [5]), (36180, [5])])]"
    by (simp add: win_eval)
  have l: "window_loop ?cfg [(36000, [(36000, [5]), (36060, [5])]), (36120, [(36120, [5]), (36180, [5])])] []
      = [[(36000, [5]), (36060, [5])], [(36120, [5]), (36180, [5])]]"
    by (simp add: win_eval default_config_def)
  have c: "cut_to_max (cfg\<lparr>window_stride := stride\<rparr>) = cut_to_max cfg"
    by (rule ext) (simp add: cut_to_max_def)
  have e: "enough_logs (cfg\<lparr>window_stride := stride\<rparr>) = enough_logs cfg"
    by (rule ext) (simp add: enough_logs_def)
  have 1: "create_time_windows freq (cfg\<lparr>window_stride := stride\<rparr>) df = create_time_windows freq cfg df"
    by (simp add: create_time_windows_def window_loop_eq c e cong: if_cong)
  have 2: "get_stride_timedelta ?cfg = Inr 60"
    by (simp add: get_stride_timedelta_def pts_eval)
  have 3: "map_sum id (map fst)
        (create_time_windows parse_time_str ?cfg [(36000, [5]), (36060, [5]), (36120, [5]), (36180, [5])])
      = Inr [36000, 36120]"
    unfolding create_time_windows_def ws window_2min bind_err_def
    by (simp add: r l ncols_def del: window_loop.simps)
  from 1 2 3 show ?thesis by blast
qed

section \<open>Properties of the normalizer\<close>

lemma map_of_update: "map_of (AList.update k v al) = (map_of al)(k \<mapsto> v)"
  by (rule update_conv')

lemma minmax_column_eq:
  "minmax_column fs c xs =
     (minmax_apply (entry_of minmax_entry fs c xs) xs, if fs c = None then fs(c \<mapsto> minmax_entry xs) else fs)"
  by (auto simp: minmax_column_def entry_of_def Let_def split: option.splits)



lemma loop_learns:
  assumes body: "\<And>fs c xs. body fs c xs =
        (app (entry_of fit fs c xs) xs, if fs c = None then fs(c \<mapsto> fit xs) else fs)"
    and ok_app: "\<And>d xs. ok d \<Longrightarrow> \<exists>ys. app d xs = Inr ys"
    and ok_fit: "\<And>xs. ok (fit xs)"
    and "\<forall>c d. fs c = Some d \<longrightarrow> ok d"
    and "distinct (map fst cols)"
  shows "\<exists>out fs'. normalize_loop body fs cols nz = (Inr out, fs')
           \<and> (\<forall>c d. fs' c = Some d \<longrightarrow> ok d)
           \<and> (\<forall>(c, xs) \<in> set cols. fs' c = Some (entry_of fit fs c xs)
                  \<and> (\<exists>ys. app (entry_of fit fs c xs) xs = Inr ys \<and> map_of out c = Some ys))
           \<and> (\<forall>c. c \<notin> fst ` set cols \<longrightarrow> map_of out c = map_of nz c \<and> fs' c = fs c)"
  using assms(4,5)
proof (induction cols arbitrary: fs nz)
  case Nil
  then show ?case by simp
next
  case (Cons a cols)
  obtain c xs where a: "a = (c, xs)" by (cases a)
  let ?fs1 = "if fs c = None then fs(c \<mapsto> fit xs) else fs"
  let ?d = "entry_of fit fs c xs"
  have okd: "ok ?d" using Cons.prems(1) ok_fit by (auto simp: entry_of_def split: option.splits)
  then obtain ys where ys: "app ?d xs = Inr ys" using ok_app by blast
  have ok1: "\<forall>c d. ?fs1 c = Some d \<longrightarrow> ok d" using Cons.prems(1) ok_fit by auto
  from Cons.prems(2) a have dist: "distinct (map fst cols)" and cnot: "c \<notin> fst ` set cols" by auto
  from Cons.IH [OF ok1 dist, of "AList.update c ys nz"]
  obtain out fs' where loop: "normalize_loop body ?fs1 cols (AList.update c ys nz) = (Inr out, fs')"
    and ok': "\<forall>c d. fs' c = Some d \<longrightarrow> ok d"
    and cols: "\<forall>(c', xs') \<in> set cols. fs' c' = Some (entry_of fit ?fs1 c' xs')
                  \<and> (\<exists>ys. app (entry_of fit ?fs1 c' xs') xs' = Inr ys \<and> map_of out c' = Some ys)"
    and other: "\<forall>c'. c' \<notin> fst ` set cols \<longrightarrow> map_of out c' = map_of (AList.update c ys nz) c' \<and> fs' c' = ?fs1 c'"
    by blast
  have res: "normalize_loop body fs (a # cols) nz = (Inr out, fs')"
    using loop ys by (simp add: a body)
  have same: "entry_of fit ?fs1 c' xs' = entry_of fit fs c' xs'" if "c' \<noteq> c" for c' xs'
    using that by (simp add: entry_of_def)
  have here: "fs' c = Some ?d \<and> map_of out c = Some ys"
    using other cnot by (auto simp: map_of_update entry_of_def split: option.splits)
  have there: "\<forall>(c', xs') \<in> set cols. fs' c' = Some (entry_of fit fs c' xs')
                  \<and> (\<exists>ys. app (entry_of fit fs c' xs') xs' = Inr ys \<and> map_of out c' = Some ys)"
  proof (clarify)
    fix c' xs' assume m: "(c', xs') \<in> set cols"
    with cnot have "c' \<noteq> c" by force
    with cols m same show "fs' c' = Some (entry_of fit fs c' xs')
         \<and> (\<exists>ys. app (entry_of fit fs c' xs') xs' = Inr ys \<and> map_of out c' = Some ys)"
      by fastforce
  qed
  have rest: "\<forall>c'. c' \<notin> fst ` set (a # cols) \<longrightarrow> map_of out c' = map_of nz c' \<and> fs' c' = fs c'"
    using other a by (auto simp: map_of_update)
  from res ok' here ys there rest show ?case
    by (auto simp: a)
qed











lemma set_present: "set (present xs) = {v. Some v \<in> set xs}"
  by (force simp: present_def map_filter_def image_iff)

lemma minmax_scale_spread:
  assumes "Some a \<in> set xs" and "Some b \<in> set xs" and "a \<noteq> b" and "i < length xs"
  shows "(xs ! i = None \<longrightarrow> minmax_scale (series_min (present xs)) (series_max (present xs)) xs ! i = None)
       \<and> (\<forall>v. xs ! i = Some v \<longrightarrow>
            (\<exists>y. minmax_scale (series_min (present xs)) (series_max (present xs)) xs ! i = Some y
               \<and> 0 \<le> y \<and> y \<le> 1
               \<and> (v = Min (set (present xs)) \<longrightarrow> y = 0)
               \<and> (v = Max (set (present xs)) \<longrightarrow> y = 1)))"
proof -
  let ?P = "set (present xs)"
  let ?mn = "Min ?P" and ?mx = "Max ?P"
  have fin: "finite ?P" by simp
  from assms(1,2) have ab: "a \<in> ?P" "b \<in> ?P" by (simp_all add: set_present)
  then have ne: "present xs \<noteq> []" by auto
  from ab fin have "?mn \<le> a" "?mn \<le> b" "a \<le> ?mx" "b \<le> ?mx" by simp_all
  with assms(3) have lt: "?mn < ?mx" by linarith
  have sc: "minmax_scale (series_min (present xs)) (series_max (present xs)) xs
      = map (\<lambda>v. cell_div (cell_sub v (Some ?mn)) (Some (?mx - ?mn))) xs"
    using ne lt by (simp add: minmax_scale_def series_min_def series_max_def cell_gt_def cell_sub_def)
  show ?thesis
  proof (intro conjI impI allI)
    assume "xs ! i = None"
    then show "minmax_scale (series_min (present xs)) (series_max (present xs)) xs ! i = None"
      using assms(4) by (simp add: sc cell_sub_def cell_div_def)
  next
    fix v assume v: "xs ! i = Some v"
    with assms(4) have "Some v \<in> set xs" by (metis nth_mem)
    then have "v \<in> ?P" by (simp add: set_present)
    with fin have b: "?mn \<le> v" "v \<le> ?mx" by simp_all
    let ?y = "(v - ?mn) / (?mx - ?mn)"
    have y: "minmax_scale (series_min (present xs)) (series_max (present xs)) xs ! i = Some ?y"
      using assms(4) v lt by (simp add: sc cell_sub_def cell_div_def)
    have "0 \<le> ?y" using b lt by simp
    moreover have "?y \<le> 1" using b lt by simp
    moreover have "v = ?mn \<longrightarrow> ?y = 0" by simp
    moreover have "v = ?mx \<longrightarrow> ?y = 1" using lt by simp
    ultimately show "\<exists>y. minmax_scale (series_min (present xs)) (series_max (present xs)) xs ! i = Some y
               \<and> 0 \<le> y \<and> y \<le> 1 \<and> (v = ?mn \<longrightarrow> y = 0) \<and> (v = ?mx \<longrightarrow> y = 1)"
      using y by blast
  qed
qed

lemma minmax_scale_constant:
  assumes "\<forall>a b. Some a \<in> set xs \<and> Some b \<in> set xs \<longrightarrow> a = b"
  shows "minmax_scale (series_min (present xs)) (series_max (present xs)) xs = map (\<lambda>v. Some 0) xs"
proof (cases "present xs = []")
  case True
  then show ?thesis by (simp add: minmax_scale_def series_min_def series_max_def cell_gt_def)
next
  case False
  let ?P = "set (present xs)"
  from False have "Min ?P \<in> ?P" "Max ?P \<in> ?P" by simp_all
  then have "Some (Min ?P) \<in> set xs" "Some (Max ?P) \<in> set xs" by (simp_all add: set_present)
  with assms have "Min ?P = Max ?P" by blast
  then show ?thesis
    using False by (simp add: minmax_scale_def series_min_def series_max_def cell_gt_def)
qed

lemma minmax_apply_entry:
  "minmax_apply (minmax_entry xs) xs = Inr (minmax_scale (series_min (present xs)) (series_max (present xs)) xs)"
  by (simp add: minmax_apply_def minmax_entry_def dict_get_def bind_err_def)

text \<open>
  C4: on an instance with an empty cache, min-max normalization of a table with
  distinct labels returns, and for each of its columns: if the column has two
  different numbers, every number is mapped into \<open>[0, 1]\<close>, the least to 0 and the
  greatest to 1 (a NaN cell stays NaN); if all its numbers are equal, every row
  becomes 0.
\<close>

theorem minmax_first_call_range:
  assumes "feature_stats self = Map.empty"
    and "distinct (map fst df)"
    and "(c, xs) \<in> set df"
  shows "\<exists>out self' ys. minmax_normalize self df = (Inr out, self')
       \<and> map_of out c = Some ys \<and> length ys = length xs
       \<and> ((\<exists>a b. Some a \<in> set xs \<and> Some b \<in> set xs \<and> a \<noteq> b) \<longrightarrow>
            (\<forall>i < length xs.
               (xs ! i = None \<longrightarrow> ys ! i = None)
             \<and> (\<forall>v. xs ! i = Some v \<longrightarrow>
                  (\<exists>y. ys ! i = Some y \<and> 0 \<le> y \<and> y \<le> 1
                     \<and> (v = Min (set (present xs)) \<longrightarrow> y = 0)
                     \<and> (v = Max (set (present xs)) \<longrightarrow> y = 1)))))
       \<and> ((\<forall>a b. Some a \<in> set xs \<and> Some b \<in> set xs \<longrightarrow> a = b) \<longrightarrow> ys = map (\<lambda>v. Some 0) xs)"
proof -
  let ?ok = "\<lambda>d :: string \<rightharpoonup> cell. d ''min'' \<noteq> None \<and> d ''max'' \<noteq> None"
  let ?ys = "minmax_scale (series_min (present xs)) (series_max (present xs)) xs"
  have "\<exists>out fs'. normalize_loop minmax_column (feature_stats self) df df = (Inr out, fs')
           \<and> (\<forall>c d. fs' c = Some d \<longrightarrow> ?ok d)
           \<and> (\<forall>(c, xs) \<in> set df. fs' c = Some (entry_of minmax_entry (feature_stats self) c xs)
                  \<and> (\<exists>ys. minmax_apply (entry_of minmax_entry (feature_stats self) c xs) xs = Inr ys
                        \<and> map_of out c = Some ys))
           \<and> (\<forall>c. c \<notin> fst ` set df \<longrightarrow> map_of out c = map_of df c \<and> fs' c = feature_stats self c)"
  proof (rule loop_learns [where ok = ?ok and fit = minmax_entry and app = minmax_apply])
    show "\<exists>ys. minmax_apply d xs = Inr ys" if "?ok d" for d xs
      using that by (auto simp: minmax_apply_def dict_get_def bind_err_def)
    show "?ok (minmax_entry xs)" for xs
      by (simp add: minmax_entry_def)
    show "minmax_column fs c xs =
        (minmax_apply (entry_of minmax_entry fs c xs) xs,
         if fs c = None then fs(c \<mapsto> minmax_entry xs) else fs)" for fs :: "'a stats" and c xs
      by (rule minmax_column_eq)
    show "\<forall>c d. feature_stats self c = Some d \<longrightarrow> ?ok d"
      by (simp add: assms(1))
    show "distinct (map fst df)" by (rule assms(2))
  qed
  then obtain out fs' where l: "normalize_loop minmax_column (feature_stats self) df df = (Inr out, fs')"
    and cols: "\<forall>(c, xs) \<in> set df. \<exists>ys. minmax_apply (entry_of minmax_entry (feature_stats self) c xs) xs = Inr ys
                        \<and> map_of out c = Some ys"
    by fast
  from cols assms(3) obtain ys where
    "minmax_apply (entry_of minmax_entry (feature_stats self) c xs) xs = Inr ys" "map_of out c = Some ys"
    by blast
  then have o: "map_of out c = Some ?ys"
    by (simp add: entry_of_def assms(1) minmax_apply_entry)
  have n: "minmax_normalize self df = (Inr out, self\<lparr>feature_stats := fs'\<rparr>)"
    by (simp add: minmax_normalize_def l)
  have len: "length ?ys = length xs" by (simp add: minmax_scale_def)
  have spread: "(\<exists>a b. Some a \<in> set xs \<and> Some b \<in> set xs \<and> a \<noteq> b) \<longrightarrow>
            (\<forall>i < length xs.
               (xs ! i = None \<longrightarrow> ?ys ! i = None)
             \<and> (\<forall>v. xs ! i = Some v \<longrightarrow>
                  (\<exists>y. ?ys ! i = Some y \<and> 0 \<le> y \<and> y \<le> 1
                     \<and> (v = Min (set (present xs)) \<longrightarrow> y = 0)
                     \<and> (v = Max (set (present xs)) \<longrightarrow> y = 1))))"
    using minmax_scale_spread by blast
  have const: "(\<forall>a b. Some a \<in> set xs \<and> Some b \<in> set xs \<longrightarrow> a = b) \<longrightarrow> ?ys = map (\<lambda>v. Some 0) xs"
    using minmax_scale_constant by blast
  from n o len spread const show ?thesis by blast
qed


theorem minmax_first_call_range_witness:
  "feature_stats \<lparr>config = default_config, feature_stats = (Map.empty :: string stats)\<rparr> = Map.empty
   \<and> (\<exists>out self' ys.
          minmax_normalize \<lparr>config = default_config, feature_stats = Map.empty\<rparr>
             [(''a'', [Some 1, Some 3, None, Some 2]), (''b'', [Some 5, Some 5, Some 5, Some 5])]
            = (Inr out, self')
        \<and> map_of out ''a'' = Some ys
        \<and> ys ! 0 = Some 0 \<and> ys ! 1 = Some 1 \<and> ys ! 2 = None
        \<and> (\<exists>y. ys ! 3 = Some y \<and> 0 \<le> y \<and> y \<le> 1))"
proof -
  let ?self = "\<lparr>config = default_config, feature_stats = (Map.empty :: string stats)\<rparr>"
  let ?xs = "[Some 1, Some 3, None, Some 2] :: cell list"
  let ?df = "[(''a'', ?xs), (''b'', [Some 5, Some 5, Some 5, Some 5])]"
  have 1: "feature_stats ?self = Map.empty" by simp
  have 2: "distinct (map fst ?df)" by simp
  have 3: "(''a'', ?xs) \<in> set ?df" by simp
  have two: "\<exists>a b. Some a \<in> set ?xs \<and> Some b \<in> set ?xs \<and> a \<noteq> b"
    by (intro exI [of _ 1] exI [of _ 3]) simp
  have mn: "Min (set (present ?xs)) = 1" by (simp add: present_def map_filter_simps)
  have mx: "Max (set (present ?xs)) = 3" by (simp add: present_def map_filter_simps)
  from minmax_first_call_range [where self = ?self and df = ?df and c = "''a''" and xs = ?xs, OF 1 2 3]
  obtain out self' ys where r: "minmax_normalize ?self ?df = (Inr out, self')"
    and o: "map_of out ''a'' = Some ys"
    and sp: "(\<exists>a b. Some a \<in> set ?xs \<and> Some b \<in> set ?xs \<and> a \<noteq> b) \<longrightarrow>
            (\<forall>i < length ?xs.
               (?xs ! i = None \<longrightarrow> ys ! i = None)
             \<and> (\<forall>v. ?xs ! i = Some v \<longrightarrow>
                  (\<exists>y. ys ! i = Some y \<and> 0 \<le> y \<and> y \<le> 1
                     \<and> (v = Min (set (present ?xs)) \<longrightarrow> y = 0)
                     \<and> (v = Max (set (present ?xs)) \<longrightarrow> y = 1))))"
    by blast
  from sp two have all: "\<forall>i < length ?xs.
               (?xs ! i = None \<longrightarrow> ys ! i = None)
             \<and> (\<forall>v. ?xs ! i = Some v \<longrightarrow>
                  (\<exists>y. ys ! i = Some y \<and> 0 \<le> y \<and> y \<le> 1
                     \<and> (v = 1 \<longrightarrow> y = 0) \<and> (v = 3 \<longrightarrow> y = 1)))"
    unfolding mn mx by blast
  from all [rule_format, of 0] have y0: "ys ! 0 = Some 0" by simp
  from all [rule_format, of 1] have y1: "ys ! 1 = Some 1" by simp
  from all [rule_format, of 2] have y2: "ys ! 2 = None" by simp
  from all [rule_format, of 3] have y3: "\<exists>y. ys ! 3 = Some y \<and> 0 \<le> y \<and> y \<le> 1" by simp
  from r o y0 y1 y2 y3 1 show ?thesis by blast
qed

end
